theory Spec2Isabelle
  imports Main "HOL-Library.Word"
begin

section \<open>The icon script \<^verbatim>\<open>create-icon.py\<close>\<close>

text \<open>
  The script is a straight line of calls into the imaging library: create a 180 by 180
  RGB canvas, load a font (with a catch-all fallback to the built-in one), measure the
  letter, compute a draw position, draw, save, print.  The script's own part (the
  constants, the try/except, the arithmetic of the position, the order of the calls) is
  embedded line by line in the section on the script.  The library calls are embedded as
  far as the script uses them; everything the script cannot control (which fonts can be
  loaded, what a font rasterises, whether the output path can be written, what is on
  disk already) is a field of the \<open>world\<close> the script runs in.
\<close>

subsection \<open>Values of the imaging library\<close>

type_synonym u8 = "8 word"

text \<open>A pixel of an RGB image: three 8-bit bands, no alpha.\<close>

type_synonym rgb = "u8 \<times> u8 \<times> u8"

text \<open>
  What a font renders for a string: a bitmap of coverage values (0 is untouched, 255 is
  fully inked, the values between are the anti-aliased edge), its width and height, and
  the offset of its top-left corner from the anchor the text is drawn at.  A TrueType
  font anchors at the ascender line, so a lowercase letter has a positive vertical
  offset; the offsets are what the first two components of a bounding box report.
\<close>

record raster =
  offset :: "int \<times> int"
  extent :: "nat \<times> nat"
  coverage :: "int \<times> int \<Rightarrow> u8"

type_synonym font = "string \<Rightarrow> raster"

record image =
  mode :: string
  isize :: "int \<times> int"
  pixels :: "int \<times> int \<Rightarrow> rgb"

datatype error =
    OSError string
  | ImportError string
  | ValueError string
  | FileNotFoundError string
  | IndexError

text \<open>A file on disk is a PNG encoding of an image, or some other bytes.\<close>

datatype disk_file = PNG image | Bytes "u8 list"

text \<open>
  The world of one run.  \<open>truetype\<close> is \<^verbatim>\<open>ImageFont.truetype(path, size)\<close>, which
  raises when the file is missing, is no font, or the library was built without font
  rendering; \<open>load_default\<close> is \<^verbatim>\<open>ImageFont.load_default(size=None)\<close>, which always
  returns a font; \<open>writable\<close> says whether a file can be created or replaced at a path.
\<close>

record world =
  truetype :: "string \<Rightarrow> nat \<Rightarrow> error + font"
  load_default :: "nat option \<Rightarrow> font"
  writable :: "string \<Rightarrow> bool"
  files :: "string \<rightharpoonup> disk_file"
  stdout :: "string list"

subsection \<open>Colours\<close>

text \<open>
  \<^verbatim>\<open>ImageColor.getrgb\<close>, for the two forms the script passes: the name \<^verbatim>\<open>black\<close> of the
  colour table and the form \<^verbatim>\<open>#rrggbb\<close>.  Any other string is rejected here.
\<close>

definition hex_digit :: "char \<Rightarrow> nat option" where
  "hex_digit c =
     (let n = (of_char c :: nat) in
      if 48 \<le> n \<and> n \<le> 57 then Some (n - 48)
      else if 65 \<le> n \<and> n \<le> 70 then Some (n - 55)
      else if 97 \<le> n \<and> n \<le> 102 then Some (n - 87)
      else None)"

definition hex_byte :: "char \<Rightarrow> char \<Rightarrow> u8 option" where
  "hex_byte a b =
     (case (hex_digit a, hex_digit b) of
        (Some x, Some y) \<Rightarrow> Some (of_nat (16 * x + y))
      | _ \<Rightarrow> None)"

fun getrgb :: "string \<Rightarrow> error + rgb" where
  "getrgb [h, r1, r2, g1, g2, b1, b2] =
     (if h = CHR ''#'' then
        (case (hex_byte r1 r2, hex_byte g1 g2, hex_byte b1 b2) of
           (Some r, Some g, Some b) \<Rightarrow> Inr (r, g, b)
         | _ \<Rightarrow> Inl (ValueError [h, r1, r2, g1, g2, b1, b2]))
      else Inl (ValueError [h, r1, r2, g1, g2, b1, b2]))"
| "getrgb s = (if s = ''black'' then Inr (0, 0, 0) else Inl (ValueError s))"

subsection \<open>Images\<close>

definition in_canvas :: "image \<Rightarrow> int \<times> int \<Rightarrow> bool" where
  "in_canvas img p =
     (0 \<le> fst p \<and> fst p < fst (isize img) \<and> 0 \<le> snd p \<and> snd p < snd (isize img))"

text \<open>\<^verbatim>\<open>Image.new('RGB', size, color)\<close>: every pixel holds the colour.\<close>

definition Image_new_RGB :: "int \<times> int \<Rightarrow> string \<Rightarrow> error + image" where
  "Image_new_RGB sz color =
     (case getrgb color of
        Inl e \<Rightarrow> Inl e
      | Inr c \<Rightarrow> Inr \<lparr>mode = ''RGB'', isize = sz, pixels = (\<lambda>p. c)\<rparr>)"

text \<open>\<^verbatim>\<open>img.getpixel(p)\<close>: raises outside the canvas.\<close>

definition getpixel :: "image \<Rightarrow> int \<times> int \<Rightarrow> error + rgb" where
  "getpixel img p = (if in_canvas img p then Inr (pixels img p) else Inl IndexError)"

text \<open>
  \<^verbatim>\<open>draw.textbbox(xy, text, font=font)\<close>: the rectangle (left, top, right, bottom) that
  the bitmap of the text takes when the text is anchored at \<open>xy\<close>.
\<close>

definition textbbox :: "int \<times> int \<Rightarrow> string \<Rightarrow> font \<Rightarrow> int \<times> int \<times> int \<times> int" where
  "textbbox xy s f =
     (let r = f s;
          x0 = fst xy + fst (offset r);
          y0 = snd xy + snd (offset r)
      in (x0, y0, x0 + int (fst (extent r)), y0 + int (snd (extent r))))"

text \<open>
  The coverage the text anchored at \<open>xy\<close> has at the canvas position \<open>p\<close>: the value
  of the bitmap there, and 0 outside the bitmap.
\<close>

definition mask_at :: "raster \<Rightarrow> int \<times> int \<Rightarrow> int \<times> int \<Rightarrow> u8" where
  "mask_at r xy p =
     (let col = fst p - (fst xy + fst (offset r));
          row = snd p - (snd xy + snd (offset r))
      in if 0 \<le> col \<and> col < int (fst (extent r)) \<and> 0 \<le> row \<and> row < int (snd (extent r))
         then coverage r (col, row) else 0)"

text \<open>
  Painting one band through a coverage value: the rounded
  \<open>(old * (255 - m) + ink * m) / 255\<close>, computed the way the library does, without a
  division.
\<close>

definition div255 :: "nat \<Rightarrow> nat" where
  "div255 a = (let t = a + 128 in (t div 256 + t) div 256)"

definition blend :: "u8 \<Rightarrow> u8 \<Rightarrow> u8 \<Rightarrow> u8" where
  "blend m old ink = of_nat (div255 (unat old * (255 - unat m) + unat ink * unat m))"

definition blend_rgb :: "u8 \<Rightarrow> rgb \<Rightarrow> rgb \<Rightarrow> rgb" where
  "blend_rgb m old ink =
     (case (old, ink) of
        ((r, g, b), (r', g', b')) \<Rightarrow> (blend m r r', blend m g g', blend m b b'))"

text \<open>
  \<^verbatim>\<open>draw.text(xy, text, fill=fill, font=font)\<close>: the bitmap of the text is painted in the
  fill colour at \<open>xy\<close> plus the bitmap's offset, clipped to the canvas.
\<close>

definition draw_text :: "image \<Rightarrow> int \<times> int \<Rightarrow> string \<Rightarrow> string \<Rightarrow> font \<Rightarrow> error + image" where
  "draw_text img xy s fill f =
     (case getrgb fill of
        Inl e \<Rightarrow> Inl e
      | Inr ink \<Rightarrow>
          Inr (img\<lparr>pixels := (\<lambda>p. if in_canvas img p
                                   then blend_rgb (mask_at (f s) xy p) (pixels img p) ink
                                   else pixels img p)\<rparr>))"

text \<open>
  \<^verbatim>\<open>img.save(path)\<close> for a path ending in \<^verbatim>\<open>.png\<close>: the file at the path is created or
  replaced by the PNG encoding of the image; where the path cannot be written the call
  raises and the files stay as they were.
\<close>

definition Image_save :: "world \<Rightarrow> image \<Rightarrow> string \<Rightarrow> error + world" where
  "Image_save w img path =
     (if writable w path then Inr (w\<lparr>files := (files w)(path \<mapsto> PNG img)\<rparr>)
      else Inl (OSError path))"

text \<open>\<^verbatim>\<open>Image.open(path)\<close>: decoding what is at the path.\<close>

definition Image_open :: "world \<Rightarrow> string \<Rightarrow> error + image" where
  "Image_open w path =
     (case files w path of
        None \<Rightarrow> Inl (FileNotFoundError path)
      | Some (PNG img) \<Rightarrow> Inr img
      | Some (Bytes bs) \<Rightarrow> Inl (OSError path))"

definition print_line :: "string \<Rightarrow> world \<Rightarrow> world" where
  "print_line s w = w\<lparr>stdout := stdout w @ [s]\<rparr>"

subsection \<open>The script\<close>

definition font_path :: string where
  "font_path = ''/usr/share/fonts/truetype/dejavu/DejaVuSans-Bold.ttf''"

definition output_path :: string where
  "output_path = ''/home/sol/n0de-deploy/frontend/public/apple-touch-icon.png''"

text \<open>Lines 11 to 16: the try/except around the font load catches everything.\<close>

definition resolve_font :: "world \<Rightarrow> font" where
  "resolve_font w =
     (case truetype w font_path 100 of
        Inr f \<Rightarrow> f
      | Inl e \<Rightarrow> load_default w None)"

text \<open>Lines 19 to 24.\<close>

definition position :: "font \<Rightarrow> int \<times> int" where
  "position f =
     (case textbbox (0, 0) ''n'' f of
        (b0, b1, b2, b3) \<Rightarrow>
          (let text_width = b2 - b0;
               text_height = b3 - b1
           in ((180 - text_width) div 2, (180 - text_height) div 2)))"

text \<open>Lines 7 to 26: the image in memory before it is saved.\<close>

definition render :: "world \<Rightarrow> error + image" where
  "render w =
     (case Image_new_RGB (180, 180) ''#00D4FF'' of
        Inl e \<Rightarrow> Inl e
      | Inr img \<Rightarrow>
          (let f = resolve_font w
           in draw_text img (position f) ''n'' ''black'' f))"

text \<open>
  The outcome of a run: the script ran to its end, or an exception nobody caught ended
  the process; either way with the world it left behind.
\<close>

datatype outcome = Completed world | Terminated error world

definition confirmation :: string where
  "confirmation = ''Apple touch icon created at '' @ output_path"

text \<open>The whole script, lines 7 to 31.\<close>

definition main :: "world \<Rightarrow> outcome" where
  "main w =
     (case render w of
        Inl e \<Rightarrow> Terminated e w
      | Inr img \<Rightarrow>
          (case Image_save w img output_path of
             Inl e \<Rightarrow> Terminated e w
           | Inr w' \<Rightarrow> Completed (print_line confirmation w')))"

subsection \<open>Notions the properties are stated with\<close>

text \<open>The canvas of line 7 and the icon the script draws on it with a given font.\<close>

definition canvas :: image where
  "canvas = \<lparr>mode = ''RGB'', isize = (180, 180), pixels = (\<lambda>p. (0, 212, 255))\<rparr>"

definition icon :: "font \<Rightarrow> image" where
  "icon f =
     canvas\<lparr>pixels := (\<lambda>p. if in_canvas canvas p
                            then blend_rgb (mask_at (f ''n'') (position f) p)
                                   (pixels canvas p) (0, 0, 0)
                            else pixels canvas p)\<rparr>"

text \<open>
  Where the letter lands: the bounding box of the text as drawn, that is, measured at
  the position it was drawn at.
\<close>

definition drawn_bbox :: "font \<Rightarrow> int \<times> int \<times> int \<times> int" where
  "drawn_bbox f = textbbox (position f) ''n'' f"

text \<open>
  A box is centred on the 180 by 180 canvas to within one pixel when the midpoint of
  each side pair is at most one pixel from 90: twice the midpoint is at most 2 from 180.
\<close>

definition centred :: "int \<times> int \<times> int \<times> int \<Rightarrow> bool" where
  "centred b =
     (case b of (x0, y0, x1, y1) \<Rightarrow>
        \<bar>x0 + x1 - 180\<bar> \<le> 2 \<and> \<bar>y0 + y1 - 180\<bar> \<le> 2)"

subsection \<open>Worlds to run the script in\<close>

text \<open>
  The font at the font path, DejaVu Sans Bold, at size 100: the letter is measured at the
  origin as the box (0, 36, 71, 93), so its bitmap is 71 wide and 57 high and starts at
  the anchor horizontally and 36 pixels below it, the anchor being on the ascender line.
  The coverage inside the box stands in for the rasterised shape: partial on the rim of
  the box, as on an anti-aliased edge, and full inside.  The built-in font at its own
  size is small, with its bitmap at the anchor.
\<close>

definition bold_font :: font where
  "bold_font s =
     \<lparr>offset = (0, 36), extent = (71, 57),
      coverage = (\<lambda>p. if fst p = 0 \<or> fst p = 70 \<or> snd p = 0 \<or> snd p = 56 then 200 else 255)\<rparr>"

definition builtin_font :: "nat option \<Rightarrow> font" where
  "builtin_font sz s =
     (case sz of
        None \<Rightarrow> \<lparr>offset = (0, 0), extent = (6, 11), coverage = (\<lambda>p. 255)\<rparr>
      | Some n \<Rightarrow> \<lparr>offset = (0, 0), extent = (n div 2, n), coverage = (\<lambda>p. 255)\<rparr>)"

text \<open>The font is installed and the output directory can be written.\<close>

definition installed_world :: world where
  "installed_world =
     \<lparr>truetype = (\<lambda>path sz. if path = font_path \<and> sz = 100 then Inr bold_font
                             else Inl (OSError path)),
      load_default = builtin_font,
      writable = (\<lambda>path. True),
      files = Map.empty,
      stdout = []\<rparr>"

text \<open>No font can be loaded.\<close>

definition fontless_world :: world where
  "fontless_world = installed_world\<lparr>truetype := (\<lambda>path sz. Inl (OSError path))\<rparr>"

text \<open>The output path cannot be written, and something else is printed already.\<close>

definition readonly_world :: world where
  "readonly_world = installed_world\<lparr>writable := (\<lambda>path. False), stdout := [''started'']\<rparr>"

section \<open>Facts about the library calls\<close>

lemma getrgb_background: "getrgb ''#00D4FF'' = Inr (0, 212, 255)"
  by (simp add: hex_byte_def hex_digit_def)

lemma getrgb_black: "getrgb ''black'' = Inr (0, 0, 0)"
  by simp

text \<open>Painting through coverage 0 keeps the old value, through coverage 255 gives the ink.\<close>

lemma div255_exact:
  assumes "n < 256"
  shows "div255 (n * 255) = n"
proof -
  define t where "t = n * 255 + 128"
  define q where "q = t div 256"
  have lo: "256 * q \<le> t" and hi: "t < 256 * q + 256"
    unfolding q_def by simp_all
  have *: "256 * n \<le> q + t" using hi assms unfolding t_def by linarith
  have "q + t < 256 * n + 256" using lo unfolding t_def by linarith
  then have "q + t < 256 * Suc n" by simp
  from * this have "(q + t) div 256 = n" by (rule div_nat_eqI)
  then show ?thesis by (simp add: div255_def Let_def t_def q_def)
qed

lemma blend_zero: "blend 0 old ink = old"
proof -
  have "unat old < 256" using unsigned_less [of old] by simp
  then have "div255 (unat old * 255) = unat old" by (rule div255_exact)
  then show ?thesis by (simp add: blend_def)
qed

lemma blend_full: "blend 255 old ink = ink"
proof -
  have "unat ink < 256" using unsigned_less [of ink] by simp
  then have "div255 (unat ink * 255) = unat ink" by (rule div255_exact)
  then show ?thesis by (simp add: blend_def)
qed

lemma blend_rgb_zero: "blend_rgb 0 old ink = old"
  by (cases old, cases ink) (simp add: blend_rgb_def blend_zero)

lemma blend_rgb_full: "blend_rgb 255 old ink = ink"
  by (cases old, cases ink) (simp add: blend_rgb_def blend_full)

section \<open>What the script computes\<close>

text \<open>
  No colour the script passes is rejected, so the image is always produced: it is the
  icon of the resolved font.  The run then ends at the save or after the print.
\<close>

lemma Image_new_canvas: "Image_new_RGB (180, 180) ''#00D4FF'' = Inr canvas"
  by (simp only: Image_new_RGB_def getrgb_background sum.case canvas_def)

lemma draw_text_black:
  "draw_text img xy s ''black'' f =
     Inr (img\<lparr>pixels := (\<lambda>p. if in_canvas img p
                              then blend_rgb (mask_at (f s) xy p) (pixels img p) (0, 0, 0)
                              else pixels img p)\<rparr>)"
  by (simp only: draw_text_def getrgb_black sum.case)

lemma render_eq: "render w = Inr (icon (resolve_font w))"
  by (simp only: render_def Image_new_canvas sum.case Let_def draw_text_black icon_def)

lemma mode_icon: "mode (icon f) = ''RGB''"
  by (simp add: icon_def canvas_def)

lemma isize_icon: "isize (icon f) = (180, 180)"
  by (simp add: icon_def canvas_def)

lemma in_canvas_canvas:
  "in_canvas canvas p = (0 \<le> fst p \<and> fst p < 180 \<and> 0 \<le> snd p \<and> snd p < 180)"
  by (simp add: in_canvas_def canvas_def)

lemma in_canvas_icon: "in_canvas (icon f) p = in_canvas canvas p"
  by (simp add: in_canvas_def isize_icon canvas_def)

lemma pixels_icon:
  "pixels (icon f) p =
     (if in_canvas canvas p
      then blend_rgb (mask_at (f ''n'') (position f) p) (0, 212, 255) (0, 0, 0)
      else (0, 212, 255))"
  by (simp add: icon_def canvas_def)

lemma main_eq:
  "main w =
     (if writable w output_path
      then Completed (w\<lparr>files := (files w)(output_path \<mapsto> PNG (icon (resolve_font w))),
                        stdout := stdout w @ [confirmation]\<rparr>)
      else Terminated (OSError output_path) w)"
  by (simp add: main_def render_eq Image_save_def print_line_def)

lemma position_eq:
  "position f =
     ((180 - int (fst (extent (f ''n'')))) div 2, (180 - int (snd (extent (f ''n'')))) div 2)"
  by (simp add: position_def textbbox_def Let_def)

text \<open>The example worlds.\<close>

lemma resolve_font_installed: "resolve_font installed_world = bold_font"
  by (simp add: resolve_font_def installed_world_def)

lemma resolve_font_fontless: "resolve_font fontless_world = builtin_font None"
  by (simp add: resolve_font_def fontless_world_def installed_world_def)

lemma position_bold: "position bold_font = (54, 61)"
  by (simp add: position_eq bold_font_def)

lemma position_builtin: "position (builtin_font None) = (87, 84)"
  by (simp add: position_eq builtin_font_def)

section \<open>The draw position\<close>

text \<open>
  Claim C4.  The top-left draw position is ((180 - text_width) div 2,
  (180 - text_height) div 2), where text_width and text_height are the width and the
  height of the bounding box measured for the letter at the origin, and the division is
  the floor division: twice each coordinate is the difference or one less.
\<close>

theorem position_is_floor_of_half_the_slack:
  "\<exists>b0 b1 b2 b3 x y.
     textbbox (0, 0) ''n'' f = (b0, b1, b2, b3) \<and> position f = (x, y) \<and>
     x = (180 - (b2 - b0)) div 2 \<and> y = (180 - (b3 - b1)) div 2 \<and>
     b2 - b0 = int (fst (extent (f ''n''))) \<and> b3 - b1 = int (snd (extent (f ''n''))) \<and>
     2 * x \<le> 180 - (b2 - b0) \<and> 180 - (b2 - b0) \<le> 2 * x + 1 \<and>
     2 * y \<le> 180 - (b3 - b1) \<and> 180 - (b3 - b1) \<le> 2 * y + 1"
  by (simp add: position_def textbbox_def Let_def) linarith

section \<open>Dimensions\<close>

text \<open>
  Claim C3.  Whatever font is resolved, the canvas is created 180 by 180, the image after
  the drawing has the same size, a drawing never changes the size of the image it draws
  on, and the image a completed run has saved is 180 by 180.
\<close>

theorem dimensions_stay_180:
  "\<exists>img0 img.
     Image_new_RGB (180, 180) ''#00D4FF'' = Inr img0 \<and> isize img0 = (180, 180) \<and>
     render w = Inr img \<and> isize img = isize img0 \<and>
     (case draw_text anyimg xy s fill f of Inl e \<Rightarrow> True | Inr img' \<Rightarrow> isize img' = isize anyimg) \<and>
     (case main w of
        Terminated e w' \<Rightarrow> files w' = files w
      | Completed w' \<Rightarrow> Image_open w' output_path = Inr img)"
proof -
  have "isize canvas = (180, 180)" by (simp add: canvas_def)
  moreover have "case draw_text anyimg xy s fill f of Inl e \<Rightarrow> True
                 | Inr img' \<Rightarrow> isize img' = isize anyimg"
    by (simp add: draw_text_def split: sum.split)
  moreover have "case main w of Terminated e w' \<Rightarrow> files w' = files w
                 | Completed w' \<Rightarrow> Image_open w' output_path = Inr (icon (resolve_font w))"
    by (simp add: main_eq Image_open_def)
  ultimately show ?thesis
    using Image_new_canvas render_eq [of w] isize_icon by metis
qed

theorem dimensions_stay_180_witness:
  "\<exists>img img' w'. render installed_world = Inr img \<and> isize img = (180, 180) \<and>
     draw_text canvas (170, 170) ''n'' ''black'' bold_font = Inr img' \<and>
     isize img' = (180, 180) \<and>
     main installed_world = Completed w' \<and> Image_open w' output_path = Inr img"
proof -
  obtain img' where d: "draw_text canvas (170, 170) ''n'' ''black'' bold_font = Inr img'"
    by (simp add: draw_text_black)
  have "writable installed_world output_path" by (simp add: installed_world_def)
  then obtain w' where m: "main installed_world = Completed w'" by (simp add: main_eq)
  have "isize canvas = (180, 180)" by (simp add: canvas_def)
  then show ?thesis
    using dimensions_stay_180 [of installed_world canvas "(170, 170)" "''n''" "''black''" bold_font]
      d m Image_new_canvas by auto
qed

section \<open>The write and the confirmation line\<close>

text \<open>
  Claim C6.  Nothing catches a failure of the save: when the output path cannot be
  written the run is terminated by the error of the save, in the world as it was, so
  with nothing printed.  Otherwise the run completes, and what it has printed is one
  line more than before, the confirmation naming the output path, in a world that
  already holds the saved file.
\<close>

theorem write_failure_ends_the_run_unconfirmed:
  "\<exists>img. render w = Inr img \<and>
     main w =
       (if writable w output_path
        then Completed (w\<lparr>files := (files w)(output_path \<mapsto> PNG img),
                          stdout := stdout w @ [confirmation]\<rparr>)
        else Terminated (OSError output_path) w)"
  using main_eq [of w] render_eq [of w] by blast

theorem write_failure_ends_the_run_unconfirmed_witness:
  "main readonly_world = Terminated (OSError output_path) readonly_world \<and>
   stdout readonly_world = [''started''] \<and>
   (\<exists>img. main installed_world =
      Completed (installed_world\<lparr>files := [output_path \<mapsto> PNG img],
                                 stdout := [confirmation]\<rparr>))"
proof -
  have "\<not> writable readonly_world output_path"
    by (simp add: readonly_world_def installed_world_def)
  then have "main readonly_world = Terminated (OSError output_path) readonly_world"
    using write_failure_ends_the_run_unconfirmed [of readonly_world] by auto
  moreover have "stdout readonly_world = [''started'']"
    by (simp add: readonly_world_def)
  moreover have "writable installed_world output_path" "files installed_world = Map.empty"
    "stdout installed_world = []"
    by (simp_all add: installed_world_def)
  then have "\<exists>img. main installed_world =
      Completed (installed_world\<lparr>files := [output_path \<mapsto> PNG img],
                                 stdout := [confirmation]\<rparr>)"
    using write_failure_ends_the_run_unconfirmed [of installed_world] by auto
  ultimately show ?thesis by blast
qed

section \<open>The frame of the drawing\<close>

text \<open>
  Claim C9.  In the image the script has drawn, every pixel of the canvas that the
  rendered letter does not cover (its coverage there is 0, as it is everywhere outside
  the bitmap) still holds the background colour #00D4FF.
\<close>

theorem uncovered_pixels_keep_the_background:
  assumes "render w = Inr img"
    and "in_canvas img p"
    and "mask_at (resolve_font w ''n'') (position (resolve_font w)) p = 0"
  shows "getpixel img p = Inr (0, 212, 255)"
proof -
  have img: "img = icon (resolve_font w)" using assms(1) render_eq [of w] by simp
  then have "in_canvas canvas p" using assms(2) by (simp add: in_canvas_icon)
  then have "pixels img p = (0, 212, 255)"
    using assms(3) by (simp add: img pixels_icon blend_rgb_zero)
  then show ?thesis using assms(2) by (simp add: getpixel_def)
qed

theorem uncovered_pixels_keep_the_background_witness:
  "\<exists>img. render installed_world = Inr img \<and> in_canvas img (53, 120) \<and>
     mask_at (resolve_font installed_world ''n'')
       (position (resolve_font installed_world)) (53, 120) = 0 \<and>
     getpixel img (53, 120) = Inr (0, 212, 255)"
proof -
  let ?img = "icon (resolve_font installed_world)"
  have r: "render installed_world = Inr ?img" by (rule render_eq)
  have c: "in_canvas ?img (53, 120)" by (simp add: in_canvas_icon in_canvas_canvas)
  have m: "mask_at (resolve_font installed_world ''n'')
             (position (resolve_font installed_world)) (53, 120) = 0"
    by (simp add: resolve_font_installed position_bold mask_at_def bold_font_def)
  show ?thesis
    using uncovered_pixels_keep_the_background [OF r c m] r c m by blast
qed

section \<open>The font fallback\<close>

text \<open>
  Claim C2.  When loading the font at the font path fails, with whatever error, the
  built-in default font is used instead: the image produced is the icon drawn with the
  default font, that is, the letter drawn in black with that font, at the position
  computed for it, on the 180 by 180 canvas.  The error of the font load does not reach
  the outcome: the run either completes, with a PNG at the output path that decodes to
  this image, or is ended by the write failure of a path that cannot be written.
\<close>

theorem font_failure_falls_back_silently:
  assumes "truetype w font_path 100 = Inl e"
  shows "resolve_font w = load_default w None \<and>
     render w = Inr (icon (load_default w None)) \<and>
     draw_text canvas (position (load_default w None)) ''n'' ''black'' (load_default w None)
       = Inr (icon (load_default w None)) \<and>
     isize (icon (load_default w None)) = (180, 180) \<and>
     (case main w of
        Completed w' \<Rightarrow> writable w output_path \<and>
          Image_open w' output_path = Inr (icon (load_default w None))
      | Terminated e' w' \<Rightarrow> \<not> writable w output_path \<and> e' = OSError output_path)"
proof -
  have f: "resolve_font w = load_default w None"
    using assms by (simp add: resolve_font_def)
  have r: "render w = Inr (icon (load_default w None))"
    using render_eq [of w] f by simp
  have d: "draw_text canvas (position (load_default w None)) ''n'' ''black''
             (load_default w None) = Inr (icon (load_default w None))"
    by (simp only: draw_text_black icon_def)
  have m: "case main w of
        Completed w' \<Rightarrow> writable w output_path \<and>
          Image_open w' output_path = Inr (icon (load_default w None))
      | Terminated e' w' \<Rightarrow> \<not> writable w output_path \<and> e' = OSError output_path"
    by (simp add: main_eq Image_open_def f)
  show ?thesis using f r d m isize_icon [of "load_default w None"] by blast
qed

theorem font_failure_falls_back_silently_witness:
  "truetype fontless_world font_path 100 = Inl (OSError font_path) \<and>
   resolve_font fontless_world = builtin_font None \<and>
   render fontless_world = Inr (icon (builtin_font None)) \<and>
   isize (icon (builtin_font None)) = (180, 180) \<and>
   getpixel (icon (builtin_font None)) (90, 90) = Inr (0, 0, 0) \<and>
   getpixel (icon (builtin_font None)) (86, 90) = Inr (0, 212, 255) \<and>
   (\<exists>w'. main fontless_world = Completed w' \<and>
      Image_open w' output_path = Inr (icon (builtin_font None)))"
proof -
  have t: "truetype fontless_world font_path 100 = Inl (OSError font_path)"
    by (simp add: fontless_world_def)
  have d: "load_default fontless_world None = builtin_font None"
    by (simp add: fontless_world_def installed_world_def)
  have m: "mask_at (builtin_font None ''n'') (position (builtin_font None)) (90, 90) = 255"
    "mask_at (builtin_font None ''n'') (position (builtin_font None)) (86, 90) = 0"
    by (simp_all add: position_builtin mask_at_def builtin_font_def)
  have px: "getpixel (icon (builtin_font None)) (90, 90) = Inr (0, 0, 0)"
    "getpixel (icon (builtin_font None)) (86, 90) = Inr (0, 212, 255)"
    by (simp_all add: getpixel_def in_canvas_icon in_canvas_canvas pixels_icon m
        blend_rgb_zero blend_rgb_full)
  have "writable fontless_world output_path"
    by (simp add: fontless_world_def installed_world_def)
  then obtain w' where c: "main fontless_world = Completed w'"
    by (simp add: main_eq)
  have "Image_open w' output_path = Inr (icon (builtin_font None))"
    using font_failure_falls_back_silently [OF t] c d by simp
  then show ?thesis
    using font_failure_falls_back_silently [OF t] t d c px by simp
qed

text \<open>
  Claim C10.  On the fallback branch the size 100 plays no part: the default font is
  loaded with no size argument, so the resolved font is the built-in font at its own
  size, and the image does not depend on what the built-in font at size 100 would be.
\<close>

theorem fallback_font_has_its_own_size:
  assumes "truetype w font_path 100 = Inl e"
  shows "resolve_font w = load_default w None \<and>
     render (w\<lparr>load_default := (load_default w)(Some 100 := g)\<rparr>) = render w"
  using assms by (simp add: resolve_font_def render_eq)

theorem fallback_font_has_its_own_size_witness:
  "truetype fontless_world font_path 100 = Inl (OSError font_path) \<and>
   resolve_font fontless_world = builtin_font None \<and>
   extent (resolve_font fontless_world ''n'') = (6, 11) \<and>
   extent (builtin_font (Some 100) ''n'') = (50, 100) \<and>
   render (fontless_world\<lparr>load_default := (load_default fontless_world)(Some 100 := bold_font)\<rparr>)
     = render fontless_world"
proof -
  have t: "truetype fontless_world font_path 100 = Inl (OSError font_path)"
    by (simp add: fontless_world_def)
  have d: "load_default fontless_world None = builtin_font None"
    by (simp add: fontless_world_def installed_world_def)
  have "extent (builtin_font None ''n'') = (6, 11)"
    "extent (builtin_font (Some 100) ''n'') = (50, 100)"
    by (simp_all add: builtin_font_def)
  then show ?thesis
    using fallback_font_has_its_own_size [OF t, of bold_font] t d by simp
qed

section \<open>The end-to-end scenario\<close>

text \<open>
  Claim C5.  With the font loaded at size 100 and a writable output path, the run
  completes; the image is an RGB raster of 180 by 180 pixels (a pixel is three bands,
  there is no alpha), and decoding the saved file gives this image back, so the
  dimensions (180, 180).  Every pixel of the canvas is the background #00D4FF painted
  over in black through the coverage the letter has there: where the letter does not
  reach, the pixel is #00D4FF; where it covers fully, black; on its anti-aliased edge,
  the blend of the two that the coverage gives, and nothing else.
\<close>

theorem end_to_end_icon:
  assumes "truetype w font_path 100 = Inr f"
    and "writable w output_path"
  shows "\<exists>img w'. render w = Inr img \<and> main w = Completed w' \<and>
     mode img = ''RGB'' \<and> isize img = (180, 180) \<and>
     Image_open w' output_path = Inr img \<and>
     (\<forall>p. in_canvas img p \<longrightarrow>
          getpixel img p =
            Inr (blend_rgb (mask_at (f ''n'') (position f) p) (0, 212, 255) (0, 0, 0))) \<and>
     (\<forall>p. in_canvas img p \<longrightarrow> mask_at (f ''n'') (position f) p = 0 \<longrightarrow>
          getpixel img p = Inr (0, 212, 255)) \<and>
     (\<forall>p. in_canvas img p \<longrightarrow> mask_at (f ''n'') (position f) p = 255 \<longrightarrow>
          getpixel img p = Inr (0, 0, 0))"
proof -
  have f: "resolve_font w = f" using assms(1) by (simp add: resolve_font_def)
  let ?w' = "w\<lparr>files := (files w)(output_path \<mapsto> PNG (icon f)),
                stdout := stdout w @ [confirmation]\<rparr>"
  have r: "render w = Inr (icon f)" using render_eq [of w] f by simp
  have m: "main w = Completed ?w'" using assms(2) f by (simp add: main_eq)
  have o: "Image_open ?w' output_path = Inr (icon f)" by (simp add: Image_open_def)
  have px: "getpixel (icon f) p =
      Inr (blend_rgb (mask_at (f ''n'') (position f) p) (0, 212, 255) (0, 0, 0))"
    if "in_canvas (icon f) p" for p
    using that by (simp add: getpixel_def pixels_icon in_canvas_icon)
  have bg: "getpixel (icon f) p = Inr (0, 212, 255)"
    if "in_canvas (icon f) p" "mask_at (f ''n'') (position f) p = 0" for p
    using that by (simp add: px blend_rgb_zero)
  have ink: "getpixel (icon f) p = Inr (0, 0, 0)"
    if "in_canvas (icon f) p" "mask_at (f ''n'') (position f) p = 255" for p
    using that by (simp add: px blend_rgb_full)
  show ?thesis
    using r m o mode_icon [of f] isize_icon [of f] px bg ink by blast
qed

theorem end_to_end_icon_witness:
  "truetype installed_world font_path 100 = Inr bold_font \<and>
   writable installed_world output_path \<and>
   (\<exists>img w'. render installed_world = Inr img \<and> main installed_world = Completed w' \<and>
      mode img = ''RGB'' \<and> isize img = (180, 180) \<and>
      Image_open w' output_path = Inr img \<and>
      getpixel img (0, 0) = Inr (0, 212, 255) \<and>
      getpixel img (90, 120) = Inr (0, 0, 0) \<and>
      getpixel img (54, 120) = Inr (0, 46, 55))"
proof -
  have t: "truetype installed_world font_path 100 = Inr bold_font"
    and wr: "writable installed_world output_path"
    by (simp_all add: installed_world_def)
  have m0: "mask_at (bold_font ''n'') (position bold_font) (0, 0) = 0"
    and m1: "mask_at (bold_font ''n'') (position bold_font) (90, 120) = 255"
    and m2: "mask_at (bold_font ''n'') (position bold_font) (54, 120) = 200"
    by (simp_all add: position_bold mask_at_def bold_font_def)
  have e: "blend_rgb 200 (0, 212, 255) (0, 0, 0) = (0, 46, 55)"
    by (simp add: blend_rgb_def blend_def div255_def)
  from end_to_end_icon [OF t wr] obtain img w' where
    h: "render installed_world = Inr img" "main installed_world = Completed w'"
       "mode img = ''RGB''" "isize img = (180, 180)" "Image_open w' output_path = Inr img"
       "\<forall>p. in_canvas img p \<longrightarrow>
          getpixel img p =
            Inr (blend_rgb (mask_at (bold_font ''n'') (position bold_font) p)
                   (0, 212, 255) (0, 0, 0))"
       "\<forall>p. in_canvas img p \<longrightarrow> mask_at (bold_font ''n'') (position bold_font) p = 0 \<longrightarrow>
          getpixel img p = Inr (0, 212, 255)"
       "\<forall>p. in_canvas img p \<longrightarrow> mask_at (bold_font ''n'') (position bold_font) p = 255 \<longrightarrow>
          getpixel img p = Inr (0, 0, 0)"
    by blast
  have c: "in_canvas img (0, 0)" "in_canvas img (90, 120)" "in_canvas img (54, 120)"
    using h(4) by (simp_all add: in_canvas_def)
  have "getpixel img (0, 0) = Inr (0, 212, 255)" using h(7) c(1) m0 by blast
  moreover have "getpixel img (90, 120) = Inr (0, 0, 0)" using h(8) c(2) m1 by blast
  moreover have "getpixel img (54, 120) = Inr (0, 46, 55)" using h(6) c(3) m2 e by simp
  ultimately show ?thesis using t wr h(1-5) by blast
qed

section \<open>Determinism\<close>

text \<open>
  Claim C7.  Two runs that resolve the same font produce the same image in memory, with
  the same dimensions 180 by 180 and the same background, whatever else differs between
  the worlds they run in (the files on disk, whether the output can be written, what has
  been printed).
\<close>

theorem same_font_same_image:
  assumes "resolve_font w1 = resolve_font w2"
  shows "\<exists>img. render w1 = Inr img \<and> render w2 = Inr img \<and> isize img = (180, 180) \<and>
     pixels img = pixels (icon (resolve_font w1))"
  using assms render_eq [of w1] render_eq [of w2] isize_icon [of "resolve_font w1"] by simp

theorem same_font_same_image_witness:
  "resolve_font installed_world = resolve_font readonly_world \<and>
   writable installed_world output_path \<and> \<not> writable readonly_world output_path \<and>
   stdout installed_world \<noteq> stdout readonly_world \<and>
   (\<exists>img. render installed_world = Inr img \<and> render readonly_world = Inr img \<and>
      isize img = (180, 180))"
proof -
  have f: "resolve_font installed_world = resolve_font readonly_world"
    by (simp add: resolve_font_def readonly_world_def installed_world_def)
  have "writable installed_world output_path" "\<not> writable readonly_world output_path"
    "stdout installed_world \<noteq> stdout readonly_world"
    by (simp_all add: readonly_world_def installed_world_def)
  then show ?thesis using same_font_same_image [OF f] f by blast
qed

section \<open>Overwriting\<close>

text \<open>
  Claim C8.  After a completed run, a second completed run on the files the first one
  left (in a world that may otherwise differ, for instance in the fonts it can load)
  leaves at the output path the image of the second run, and every other path as it was
  before the first run: the files are those of the second run alone, started on the
  original files, and so is the whole outcome.
\<close>

theorem second_run_overwrites:
  assumes "main w = Completed w1"
    and "files wb = files w1"
    and "main wb = Completed w2"
  shows "\<exists>img. render wb = Inr img \<and>
     files w2 = (files w)(output_path \<mapsto> PNG img) \<and>
     main (wb\<lparr>files := files w\<rparr>) = Completed w2"
proof -
  have w1: "files w1 = (files w)(output_path \<mapsto> PNG (icon (resolve_font w)))"
    using assms(1) by (auto simp: main_eq split: if_splits)
  have wr: "writable wb output_path"
    using assms(3) by (auto simp: main_eq split: if_splits)
  have w2: "w2 = wb\<lparr>files := (files wb)(output_path \<mapsto> PNG (icon (resolve_font wb))),
                    stdout := stdout wb @ [confirmation]\<rparr>"
    using assms(3) wr by (simp add: main_eq)
  have fs: "(files wb)(output_path \<mapsto> PNG (icon (resolve_font wb))) =
            (files w)(output_path \<mapsto> PNG (icon (resolve_font wb)))"
    by (simp add: assms(2) w1)
  have "files w2 = (files w)(output_path \<mapsto> PNG (icon (resolve_font wb)))"
    by (simp add: w2 fs)
  moreover have "resolve_font (wb\<lparr>files := files w\<rparr>) = resolve_font wb"
    by (simp add: resolve_font_def split: sum.split)
  then have "main (wb\<lparr>files := files w\<rparr>) = Completed w2"
    using wr by (simp add: main_eq w2 fs)
  ultimately show ?thesis using render_eq [of wb] by blast
qed

theorem second_run_overwrites_witness:
  "\<exists>w1 w2.
     main (installed_world\<lparr>files := [output_path \<mapsto> Bytes [0]]\<rparr>) = Completed w1 \<and>
     main (w1\<lparr>truetype := (\<lambda>path sz. Inl (OSError path))\<rparr>) = Completed w2 \<and>
     files w1 = [output_path \<mapsto> PNG (icon bold_font)] \<and>
     files w2 = [output_path \<mapsto> PNG (icon (builtin_font None))] \<and>
     stdout w2 = [confirmation, confirmation]"
proof -
  let ?w = "installed_world\<lparr>files := [output_path \<mapsto> Bytes [0]]\<rparr>"
  let ?w1 = "?w\<lparr>files := [output_path \<mapsto> PNG (icon bold_font)], stdout := [confirmation]\<rparr>"
  let ?wb = "?w1\<lparr>truetype := (\<lambda>path sz. Inl (OSError path))\<rparr>"
  let ?w2 = "?wb\<lparr>files := [output_path \<mapsto> PNG (icon (builtin_font None))],
                  stdout := [confirmation, confirmation]\<rparr>"
  have m1: "main ?w = Completed ?w1"
    by (simp add: main_eq resolve_font_def installed_world_def)
  have fb: "resolve_font ?wb = builtin_font None"
    by (simp add: resolve_font_def installed_world_def)
  have m2: "main ?wb = Completed ?w2"
    by (simp add: main_eq resolve_font_def installed_world_def)
  have fs: "files ?wb = files ?w1" by simp
  from second_run_overwrites [OF m1 fs m2]
  have "files ?w2 = (files ?w)(output_path \<mapsto> PNG (icon (builtin_font None)))"
    using render_eq [of ?wb] fb by auto
  then show ?thesis using m1 m2 by (intro exI [of _ ?w1] exI [of _ ?w2]) simp
qed

section \<open>Centring\<close>

text \<open>
  The box the letter is drawn in: the position plus the offset of the bitmap.  The
  position is computed from the width and the height alone, so the box is centred when
  the bitmap starts at the anchor, and is off centre by the offset otherwise.
\<close>

lemma drawn_bbox_eq:
  "drawn_bbox f =
     (let (ox, oy) = offset (f ''n'');
          wd = int (fst (extent (f ''n'')));
          ht = int (snd (extent (f ''n'')))
      in ((180 - wd) div 2 + ox, (180 - ht) div 2 + oy,
          (180 - wd) div 2 + ox + wd, (180 - ht) div 2 + oy + ht))"
  by (simp add: drawn_bbox_def textbbox_def position_eq Let_def split: prod.split)

lemma centred_when_bitmap_at_anchor:
  assumes "offset (f ''n'') = (0, 0)"
  shows "centred (drawn_bbox f)"
  using assms by (simp add: drawn_bbox_eq centred_def Let_def) linarith

text \<open>
  Claim C1, at the font of the font path.  The letter is measured at the origin as the
  box (0, 36, 71, 93); the position computed is (54, 61); the letter is drawn in the box
  (54, 97, 125, 154).  Horizontally the box is centred to within the rounding: its
  margins are 54 and 55.  Vertically it is not: its margins are 97 and 26, its midpoint
  125.5 is 35.5 pixels below the centre 90 of the canvas, because the 36 pixels between
  the anchor and the top of the bitmap are not taken off the position.  In the image,
  the pixel (90, 150) is black and its mirror image through the centre, (89, 29), is
  background.
\<close>

theorem letter_is_drawn_below_the_centre:
  "resolve_font installed_world = bold_font \<and>
   textbbox (0, 0) ''n'' bold_font = (0, 36, 71, 93) \<and>
   position bold_font = (54, 61) \<and>
   drawn_bbox bold_font = (54, 97, 125, 154) \<and>
   \<bar>(54::int) + 125 - 180\<bar> \<le> 2 \<and>
   \<not> \<bar>(97::int) + 154 - 180\<bar> \<le> 2 \<and>
   \<not> centred (drawn_bbox bold_font) \<and>
   (\<exists>img. render installed_world = Inr img \<and>
      getpixel img (90, 150) = Inr (0, 0, 0) \<and>
      getpixel img (89, 29) = Inr (0, 212, 255))"
proof -
  have b: "drawn_bbox bold_font = (54, 97, 125, 154)"
    by (simp add: drawn_bbox_def textbbox_def position_bold bold_font_def)
  have m: "mask_at (bold_font ''n'') (position bold_font) (90, 150) = 255"
    "mask_at (bold_font ''n'') (position bold_font) (89, 29) = 0"
    by (simp_all add: position_bold mask_at_def bold_font_def)
  have "getpixel (icon bold_font) (90, 150) = Inr (0, 0, 0)"
    "getpixel (icon bold_font) (89, 29) = Inr (0, 212, 255)"
    by (simp_all add: getpixel_def in_canvas_icon in_canvas_canvas pixels_icon m
        blend_rgb_zero blend_rgb_full)
  moreover have "textbbox (0, 0) ''n'' bold_font = (0, 36, 71, 93)"
    by (simp add: textbbox_def bold_font_def)
  moreover have "\<not> centred (drawn_bbox bold_font)"
    by (simp add: b centred_def)
  ultimately show ?thesis
    using render_eq [of installed_world] resolve_font_installed position_bold b by simp
qed

end
